theory Spec2Isabelle
  imports Main
begin

section \<open>Common vocabulary\<close>

text \<open>
  A Python \<open>str\<close> is a sequence of Unicode code points, a \<open>bytes\<close> object a sequence of
  octets. Both are lists of naturals here; \<open>lit\<close> turns an ASCII literal of the source into
  a Python string.
\<close>

type_synonym pystr = "nat list"
type_synonym bytes = "nat list"

definition lit :: "string \<Rightarrow> pystr" where
  "lit cs = map of_char cs"

text \<open>
  The exceptions the two modules raise themselves, and \<open>Raised\<close> for whatever a
  collaborator outside the module raises (the HTTP client, a JSON codec, the Config
  object); its argument only tells such exceptions apart.
\<close>

datatype error =
    KeyError
  | ConfigError pystr
  | AttributeError
  | UnicodeDecodeError
  | UnicodeEncodeError
  | Raised nat

section \<open>The lavalink auto-update setting manager\<close>

text \<open>
  \<open>managed_lavalink_auto_update.py\<close>. The manager talks to the Config value
  \<open>config.lavalink.autoupdate\<close>, whose class lives outside the module: its three
  asynchronous operations are parameters acting on a backend state \<open>'b\<close>, each of them may
  raise, and \<open>defaults\<close> is the nested dictionary \<open>config.defaults\<close> held by the Config
  object itself.
\<close>

record 'b config =
  autoupdate_call :: "'b \<Rightarrow> (error + bool) \<times> 'b"
  autoupdate_set :: "bool \<Rightarrow> 'b \<Rightarrow> (error + unit) \<times> 'b"
  autoupdate_clear :: "'b \<Rightarrow> (error + unit) \<times> 'b"
  defaults :: "pystr \<rightharpoonup> (pystr \<rightharpoonup> (pystr \<rightharpoonup> bool))"

text \<open>
  The manager's own fields (\<open>enable_cache\<close>, \<open>_cached_global\<close>, a dictionary whose only
  possible key is \<open>None\<close>), the backend behind the Config object, and one counter per
  kind of backend call, so that "no backend access" can be stated.
\<close>

record 'b manager =
  enable_cache :: bool
  cached_global :: "unit \<rightharpoonup> bool"
  store :: 'b
  backend_reads :: nat
  backend_writes :: nat
  backend_clears :: nat

definition config_read :: "'b config \<Rightarrow> 'b manager \<Rightarrow> (error + bool) \<times> 'b manager" where
  "config_read cfg m =
     (case autoupdate_call cfg (store m) of
        (r, b) \<Rightarrow> (r, m\<lparr>store := b, backend_reads := Suc (backend_reads m)\<rparr>))"

definition config_write :: "'b config \<Rightarrow> bool \<Rightarrow> 'b manager \<Rightarrow> (error + unit) \<times> 'b manager" where
  "config_write cfg v m =
     (case autoupdate_set cfg v (store m) of
        (r, b) \<Rightarrow> (r, m\<lparr>store := b, backend_writes := Suc (backend_writes m)\<rparr>))"

definition config_clear :: "'b config \<Rightarrow> 'b manager \<Rightarrow> (error + unit) \<times> 'b manager" where
  "config_clear cfg m =
     (case autoupdate_clear cfg (store m) of
        (r, b) \<Rightarrow> (r, m\<lparr>store := b, backend_clears := Suc (backend_clears m)\<rparr>))"

text \<open>\<open>self._config.defaults["GLOBAL"]["lavalink"]["autoupdate"]\<close>: three dictionary
  subscripts, each raising \<open>KeyError\<close> on a missing key.\<close>

definition default_autoupdate :: "'b config \<Rightarrow> error + bool" where
  "default_autoupdate cfg =
     (case defaults cfg (lit ''GLOBAL'') of
        None \<Rightarrow> Inl KeyError
      | Some g \<Rightarrow>
          (case g (lit ''lavalink'') of
             None \<Rightarrow> Inl KeyError
           | Some l \<Rightarrow>
               (case l (lit ''autoupdate'') of
                  None \<Rightarrow> Inl KeyError
                | Some d \<Rightarrow> Inr d)))"

definition get_global :: "'b config \<Rightarrow> 'b manager \<Rightarrow> (error + bool) \<times> 'b manager" where
  "get_global cfg m =
     (if enable_cache m \<and> cached_global m () \<noteq> None then
        (Inr (the (cached_global m ())), m)
      else
        (case config_read cfg m of
           (Inl e, m') \<Rightarrow> (Inl e, m')
         | (Inr ret, m') \<Rightarrow> (Inr ret, m'\<lparr>cached_global := (cached_global m')(() \<mapsto> ret)\<rparr>)))"

definition set_global :: "'b config \<Rightarrow> bool option \<Rightarrow> 'b manager \<Rightarrow> (error + unit) \<times> 'b manager" where
  "set_global cfg set_to m =
     (case set_to of
        Some v \<Rightarrow>
          (case config_write cfg v m of
             (Inl e, m') \<Rightarrow> (Inl e, m')
           | (Inr u, m') \<Rightarrow> (Inr (), m'\<lparr>cached_global := (cached_global m')(() \<mapsto> v)\<rparr>))
      | None \<Rightarrow>
          (case config_clear cfg m of
             (Inl e, m') \<Rightarrow> (Inl e, m')
           | (Inr u, m') \<Rightarrow>
               (case default_autoupdate cfg of
                  Inl e \<Rightarrow> (Inl e, m')
                | Inr d \<Rightarrow> (Inr (), m'\<lparr>cached_global := (cached_global m')(() \<mapsto> d)\<rparr>))))"

definition get_context_value :: "'b config \<Rightarrow> 'g \<Rightarrow> 'b manager \<Rightarrow> (error + bool) \<times> 'b manager" where
  "get_context_value cfg guild m = get_global cfg m"

definition reset_globals :: "'b manager \<Rightarrow> 'b manager" where
  "reset_globals m =
     (if cached_global m () \<noteq> None then m\<lparr>cached_global := (cached_global m)(() := None)\<rparr>
      else m)"

text \<open>
  Modelled from the spec: the Config class is not part of the module. For concrete runs
  the setting is a backend holding an optional stored boolean next to its declared
  default: a read returns the stored value or else the default, a write stores, a clear
  removes, and none of them fails.
\<close>

definition flag_config :: "bool \<Rightarrow> bool option config" where
  "flag_config d =
     \<lparr>autoupdate_call = (\<lambda>b. (Inr (case b of None \<Rightarrow> d | Some v \<Rightarrow> v), b)),
      autoupdate_set = (\<lambda>v b. (Inr (), Some v)),
      autoupdate_clear = (\<lambda>b. (Inr (), None)),
      defaults = [lit ''GLOBAL'' \<mapsto> [lit ''lavalink'' \<mapsto> [lit ''autoupdate'' \<mapsto> d]]]\<rparr>"

definition fresh_manager :: "bool \<Rightarrow> 'b \<Rightarrow> 'b manager" where
  "fresh_manager ec b =
     \<lparr>enable_cache = ec, cached_global = Map.empty, store = b,
      backend_reads = 0, backend_writes = 0, backend_clears = 0\<rparr>"

section \<open>The remote API driver\<close>

text \<open>
  \<open>apidriver.py\<close>. A config value is any JSON-serializable structure. A dictionary is an
  association list in insertion order with distinct keys; JSON numbers are Python ints
  (the driver never computes with a value, and floats are left out).
\<close>

datatype json =
    JNull
  | JBool bool
  | JInt int
  | JStr pystr
  | JArr "json list"
  | JObj "(pystr \<times> json) list"

subsection \<open>\<open>str.encode("utf-8")\<close> and \<open>bytes.decode("utf-8")\<close>\<close>

text \<open>
  Python's strict UTF-8 codec: encoding raises on a lone surrogate, decoding raises on a
  stray or missing continuation byte, an overlong form, a surrogate and anything beyond
  U+10FFFF.
\<close>

definition utf8_char :: "nat \<Rightarrow> error + bytes" where
  "utf8_char c =
     (if c < 0x80 then Inr [c]
      else if c < 0x800 then Inr [0xC0 + c div 64, 0x80 + c mod 64]
      else if 0xD800 \<le> c \<and> c < 0xE000 then Inl UnicodeEncodeError
      else if c < 0x10000 then
        Inr [0xE0 + c div 4096, 0x80 + c div 64 mod 64, 0x80 + c mod 64]
      else if c < 0x110000 then
        Inr [0xF0 + c div 262144, 0x80 + c div 4096 mod 64, 0x80 + c div 64 mod 64,
             0x80 + c mod 64]
      else Inl UnicodeEncodeError)"

fun utf8_encode :: "pystr \<Rightarrow> error + bytes" where
  "utf8_encode [] = Inr []"
| "utf8_encode (c # cs) =
     (case utf8_char c of
        Inl e \<Rightarrow> Inl e
      | Inr b \<Rightarrow> (case utf8_encode cs of Inl e \<Rightarrow> Inl e | Inr bs \<Rightarrow> Inr (b @ bs)))"

definition cont :: "nat \<Rightarrow> bool" where
  "cont b = (0x80 \<le> b \<and> b < 0xC0)"

definition push :: "nat \<Rightarrow> error + pystr \<Rightarrow> error + pystr" where
  "push c r = (case r of Inl e \<Rightarrow> Inl e | Inr cs \<Rightarrow> Inr (c # cs))"

fun utf8_decode :: "bytes \<Rightarrow> error + pystr" where
  "utf8_decode [] = Inr []"
| "utf8_decode (b # bs) =
     (if b < 0x80 then push b (utf8_decode bs)
      else if 0xC2 \<le> b \<and> b < 0xE0 then
        (case bs of
           b1 # r \<Rightarrow>
             if cont b1 then push ((b - 0xC0) * 64 + (b1 - 0x80)) (utf8_decode r)
             else Inl UnicodeDecodeError
         | _ \<Rightarrow> Inl UnicodeDecodeError)
      else if 0xE0 \<le> b \<and> b < 0xF0 then
        (case bs of
           b1 # b2 # r \<Rightarrow>
             (let c = (b - 0xE0) * 4096 + (b1 - 0x80) * 64 + (b2 - 0x80)
              in if cont b1 \<and> cont b2 \<and> 0x800 \<le> c \<and> \<not> (0xD800 \<le> c \<and> c < 0xE000)
                 then push c (utf8_decode r)
                 else Inl UnicodeDecodeError)
         | _ \<Rightarrow> Inl UnicodeDecodeError)
      else if 0xF0 \<le> b \<and> b < 0xF5 then
        (case bs of
           b1 # b2 # b3 # r \<Rightarrow>
             (let c = (b - 0xF0) * 262144 + (b1 - 0x80) * 4096 + (b2 - 0x80) * 64 + (b3 - 0x80)
              in if cont b1 \<and> cont b2 \<and> cont b3 \<and> 0x10000 \<le> c \<and> c < 0x110000
                 then push c (utf8_decode r)
                 else Inl UnicodeDecodeError)
         | _ \<Rightarrow> Inl UnicodeDecodeError)
      else Inl UnicodeDecodeError)"


subsection \<open>Collaborators of the driver\<close>

text \<open>
  \<open>IdentifierData\<close>, \<open>ConfigCategory\<close> and \<open>BaseDriver\<close> live in \<open>drivers/base.py\<close>, a
  module outside this development. The identifier is a record of the arguments its
  constructor receives; what the driver calls of the rest is a parameter, collected in
  \<open>env\<close> together with the two JSON libraries and Python's \<open>str()\<close>:
  \<^item> \<open>orjson\<close>: whether \<open>import orjson\<close> succeeded at module load;
  \<^item> \<open>orjson_dumps\<close> returns bytes, \<open>ujson_dumps\<close> returns text, and both may raise;
  \<^item> \<open>to_dict\<close> is \<open>IdentifierData.to_dict\<close>;
  \<^item> \<open>get_pkey_info\<close> is \<open>ConfigCategory.get_pkey_info\<close> and \<open>split_primary_key\<close> is
    \<open>BaseDriver._split_primary_key\<close>; the driver calls both outside its \<open>try\<close> blocks, so
    their exceptions are results here.
\<close>

record identifier_data =
  cog_name :: pystr
  uuid :: pystr
  category :: pystr
  primary_key :: "pystr list"
  identifiers :: "pystr list"
  primary_key_len :: nat
  is_custom :: bool

type_synonym custom_group_data = "(pystr \<times> nat) list"

record env =
  orjson :: bool
  orjson_dumps :: "json \<Rightarrow> error + bytes"
  ujson_dumps :: "json \<Rightarrow> error + pystr"
  to_dict :: "identifier_data \<Rightarrow> json"
  py_str :: "json \<Rightarrow> pystr"
  get_pkey_info :: "pystr \<Rightarrow> custom_group_data \<Rightarrow> error + nat \<times> bool"
  split_primary_key :: "pystr \<Rightarrow> custom_group_data \<Rightarrow> json \<Rightarrow> error + (pystr list \<times> json) list"

subsection \<open>The HTTP session\<close>

text \<open>
  A request is what the driver hands to \<open>session.post\<close> or \<open>session.put\<close>: the URL, the
  \<open>Authorization\<close> header, the query parameters and the body. A response is its status
  and the outcome of \<open>await response.json(loads=json_loads)\<close>, which raises when the body
  is not JSON. The server is any function of the requests received so far and the current
  one; a transport failure is an exception of the request itself. The world records the
  requests sent and what was logged.
\<close>

datatype verb = POST | PUT

record request =
  verb :: verb
  url :: pystr
  authorization :: "pystr option"
  params :: "(pystr \<times> json) list"
  body :: "bytes option"

record response =
  status :: nat
  json_body :: "error + json"

type_synonym server = "request list \<Rightarrow> request \<Rightarrow> error + response"

datatype log_entry = Info pystr | Critical identifier_data json error

record world =
  sent :: "request list"
  logged :: "log_entry list"

record driver =
  token :: "pystr option"
  base_url :: pystr
  self_cog_name :: pystr
  unique_cog_identifier :: pystr

subsection \<open>Codec normalisation\<close>

text \<open>
  \<open>_load_to_string\<close> decodes values that have a \<open>decode\<close> attribute; none of the types a
  JSON decoder returns has one, which is what \<open>decode_attr\<close> says. \<open>JsonPayload\<close> is always
  built with its default \<open>dumps\<close> (the module's \<open>json_dumps\<close>) and its default encoding.
\<close>

definition decode_attr :: "json \<Rightarrow> (pystr \<Rightarrow> json) option" where
  "decode_attr value = None"

definition load_to_string :: "env \<Rightarrow> json \<Rightarrow> json" where
  "load_to_string ev value =
     (if \<not> orjson ev then value
      else (case decode_attr value of Some dec \<Rightarrow> dec (lit ''utf-8'') | None \<Rightarrow> value))"

definition dump_to_string :: "env \<Rightarrow> json \<Rightarrow> error + pystr" where
  "dump_to_string ev value =
     (if \<not> orjson ev then ujson_dumps ev value
      else (case orjson_dumps ev value of Inl e \<Rightarrow> Inl e | Inr b \<Rightarrow> utf8_decode b))"

definition JsonPayload :: "env \<Rightarrow> json \<Rightarrow> error + bytes" where
  "JsonPayload ev value =
     (if orjson ev then orjson_dumps ev value
      else (case ujson_dumps ev value of Inl e \<Rightarrow> Inl e | Inr t \<Rightarrow> utf8_encode t))"

subsection \<open>The contract operations\<close>

text \<open>
  \<open>dict_get\<close> is \<open>response_output.get(key)\<close>: \<open>None\<close> for a missing key, \<open>AttributeError\<close>
  when the decoded body is not a dictionary. Each endpoint template \<open>"{base}/config/..."\<close>
  has its only placeholder in front, so \<open>replace("{base}", base_url)\<close> prepends the base
  URL. The four operations that answer with the \<open>value\<close> entry share their tail in the
  source, text for text; it is \<open>exchange\<close> here. Every operation first builds its request
  (the codec may raise there, before anything is sent) and then performs it.
\<close>

definition dict_get :: "json \<Rightarrow> pystr \<Rightarrow> error + json" where
  "dict_get d k =
     (case d of
        JObj kvs \<Rightarrow> Inr (case map_of kvs k of None \<Rightarrow> JNull | Some v \<Rightarrow> v)
      | _ \<Rightarrow> Inl AttributeError)"

definition endpoint :: "driver \<Rightarrow> string \<Rightarrow> pystr" where
  "endpoint d path = base_url d @ lit path"

definition http :: "server \<Rightarrow> request \<Rightarrow> world \<Rightarrow> (error + response) \<times> world" where
  "http srv rq w = (srv (sent w) rq, w\<lparr>sent := sent w @ [rq]\<rparr>)"

definition json_request :: "driver \<Rightarrow> env \<Rightarrow> verb \<Rightarrow> string \<Rightarrow> json \<Rightarrow> error + request" where
  "json_request d ev vb path payload =
     (case JsonPayload ev payload of
        Inl e \<Rightarrow> Inl e
      | Inr b \<Rightarrow>
          Inr \<lparr>verb = vb, url = endpoint d path, authorization = token d, params = [],
               body = Some b\<rparr>)"

definition value_response :: "env \<Rightarrow> response \<Rightarrow> error + json" where
  "value_response ev resp =
     (case json_body resp of
        Inl e \<Rightarrow> Inl e
      | Inr response_output \<Rightarrow>
          if status resp = 200 then dict_get (load_to_string ev response_output) (lit ''value'')
          else Inl (ConfigError (py_str ev response_output)))"

definition exchange :: "env \<Rightarrow> server \<Rightarrow> request \<Rightarrow> world \<Rightarrow> (error + json) \<times> world" where
  "exchange ev srv rq w =
     (case http srv rq w of
        (Inl e, w') \<Rightarrow> (Inl e, w')
      | (Inr resp, w') \<Rightarrow> (value_response ev resp, w'))"



definition set_payload :: "env \<Rightarrow> identifier_data \<Rightarrow> json \<Rightarrow> error + json" where
  "set_payload ev identifier_data value =
     (case dump_to_string ev value of
        Inl e \<Rightarrow> Inl e
      | Inr t \<Rightarrow>
          Inr (JObj [(lit ''identifier'', to_dict ev identifier_data),
                     (lit ''config_data'', JStr t)]))"

definition set_request :: "driver \<Rightarrow> env \<Rightarrow> identifier_data \<Rightarrow> json \<Rightarrow> error + request" where
  "set_request d ev identifier_data value =
     (case set_payload ev identifier_data value of
        Inl e \<Rightarrow> Inl e
      | Inr p \<Rightarrow> json_request d ev PUT ''/config/set'' p)"

definition set_value :: "driver \<Rightarrow> env \<Rightarrow> server \<Rightarrow> identifier_data \<Rightarrow> json \<Rightarrow> world \<Rightarrow> (error + json) \<times> world" where
  "set_value d ev srv identifier_data value w =
     (case set_request d ev identifier_data value of
        Inl e \<Rightarrow> (Inl e, w)
      | Inr rq \<Rightarrow> exchange ev srv rq w)"










subsection \<open>Migration\<close>

text \<open>
  \<open>import_data\<close> and \<open>_individual_migrate\<close>. \<open>make_identifier\<close> is the call
  \<open>IdentifierData(self.cog_name, self.unique_cog_identifier, category, pkey, (), *info)\<close>.
  Each \<open>for\<close> loop is a recursion over its list; \<open>except Exception\<close> catches every error of
  the model.
\<close>

definition make_identifier :: "driver \<Rightarrow> pystr \<Rightarrow> pystr list \<Rightarrow> nat \<times> bool \<Rightarrow> identifier_data" where
  "make_identifier d cat pkey info =
     \<lparr>cog_name = self_cog_name d, uuid = unique_cog_identifier d, category = cat,
      primary_key = pkey, identifiers = [], primary_key_len = fst info, is_custom = snd info\<rparr>"

fun migrate_leaves :: "driver \<Rightarrow> env \<Rightarrow> server \<Rightarrow> pystr \<Rightarrow> custom_group_data \<Rightarrow> (pystr list \<times> json) list \<Rightarrow> world \<Rightarrow> (error + unit) \<times> world" where
  "migrate_leaves d ev srv cat cgd [] w = (Inr (), w)"
| "migrate_leaves d ev srv cat cgd ((pkey, data) # rest) w =
     (case get_pkey_info ev cat cgd of
        Inl e \<Rightarrow> (Inl e, w)
      | Inr info \<Rightarrow>
          (case set_value d ev srv (make_identifier d cat pkey info) data w of
             (Inr v, w') \<Rightarrow> migrate_leaves d ev srv cat cgd rest w'
           | (Inl err, w') \<Rightarrow>
               migrate_leaves d ev srv cat cgd rest
                 (w'\<lparr>logged := logged w' @ [Critical (make_identifier d cat pkey info) data err]\<rparr>)))"

definition individual_migrate :: "driver \<Rightarrow> env \<Rightarrow> server \<Rightarrow> pystr \<Rightarrow> custom_group_data \<Rightarrow> json \<Rightarrow> world \<Rightarrow> (error + unit) \<times> world" where
  "individual_migrate d ev srv cat cgd all_data w =
     (case split_primary_key ev cat cgd all_data of
        Inl e \<Rightarrow> (Inl e, w)
      | Inr splitted_pkey \<Rightarrow> migrate_leaves d ev srv cat cgd splitted_pkey w)"

fun import_rows :: "driver \<Rightarrow> env \<Rightarrow> server \<Rightarrow> custom_group_data \<Rightarrow> (pystr \<times> json) list \<Rightarrow> world \<Rightarrow> (error + unit) \<times> world" where
  "import_rows d ev srv cgd [] w = (Inr (), w)"
| "import_rows d ev srv cgd ((cat, all_data) # rest) w =
     (let w0 = w\<lparr>logged := logged w @ [Info (lit ''Converting cog category: '' @ cat)]\<rparr>
      in case get_pkey_info ev cat cgd of
           Inl e \<Rightarrow> (Inl e, w0)
         | Inr info \<Rightarrow>
             (case set_value d ev srv (make_identifier d cat [] info) all_data w0 of
                (Inr v, w1) \<Rightarrow> import_rows d ev srv cgd rest w1
              | (Inl err, w1) \<Rightarrow>
                  (case individual_migrate d ev srv cat cgd all_data w1 of
                     (Inl e, w2) \<Rightarrow> (Inl e, w2)
                   | (Inr u, w2) \<Rightarrow> import_rows d ev srv cgd rest w2)))"

definition import_data :: "driver \<Rightarrow> env \<Rightarrow> server \<Rightarrow> (pystr \<times> json) list \<Rightarrow> custom_group_data \<Rightarrow> world \<Rightarrow> (error + unit) \<times> world" where
  "import_data d ev srv cog_data custom_group_data w =
     import_rows d ev srv custom_group_data cog_data
       (w\<lparr>logged := logged w @ [Info (lit ''Converting Cog: '' @ self_cog_name d)]\<rparr>)"


subsection \<open>Reference collaborators for concrete runs\<close>

text \<open>
  Modelled from the spec: the JSON libraries, \<open>IdentifierData.to_dict\<close>, the category
  registry and \<open>_split_primary_key\<close> are defined outside \<open>apidriver.py\<close>. For concrete
  runs: a compact JSON writer that both codecs share (the spec's "two interchangeable
  codecs", differing only in bytes versus text); the identifier as its "ordered path
  segments"; a registry where GLOBAL has arity 0, GUILD and USER arity 1, MEMBER arity 2
  and any other category the arity declared in the custom group data; and a split that
  flattens the payload "by its declared primary-key arity". \<open>ref_str\<close> is Python's
  \<open>str()\<close> on decoded JSON whose strings need no escaping.
\<close>

fun digits :: "nat \<Rightarrow> pystr" where
  "digits n = (if n < 10 then [48 + n] else digits (n div 10) @ [48 + n mod 10])"

declare digits.simps [simp del]

definition decimal :: "int \<Rightarrow> pystr" where
  "decimal i = (if i < 0 then 45 # digits (nat (- i)) else digits (nat i))"

definition hex_digit :: "nat \<Rightarrow> nat" where
  "hex_digit n = (if n < 10 then 48 + n else 87 + n)"

definition escape_char :: "nat \<Rightarrow> pystr" where
  "escape_char c =
     (if c = 34 \<or> c = 92 then [92, c]
      else if c < 32 then [92, 117, 48, 48] @ [hex_digit (c div 16), hex_digit (c mod 16)]
      else [c])"

definition quote :: "pystr \<Rightarrow> pystr" where
  "quote t = 34 # concat (map escape_char t) @ [34]"

fun join :: "pystr \<Rightarrow> pystr list \<Rightarrow> pystr" where
  "join sep [] = []"
| "join sep [x] = x"
| "join sep (x # y # ys) = x @ sep @ join sep (y # ys)"

fun json_text :: "json \<Rightarrow> pystr" and member_text :: "pystr \<times> json \<Rightarrow> pystr" where
  "json_text JNull = lit ''null''"
| "json_text (JBool b) = (if b then lit ''true'' else lit ''false'')"
| "json_text (JInt i) = decimal i"
| "json_text (JStr t) = quote t"
| "json_text (JArr xs) = [91] @ join [44] (map json_text xs) @ [93]"
| "json_text (JObj kvs) = [123] @ join [44] (map member_text kvs) @ [125]"
| "member_text (k, v) = quote k @ [58] @ json_text v"

fun py_repr :: "json \<Rightarrow> pystr" and item_repr :: "pystr \<times> json \<Rightarrow> pystr" where
  "py_repr JNull = lit ''None''"
| "py_repr (JBool b) = (if b then lit ''True'' else lit ''False'')"
| "py_repr (JInt i) = decimal i"
| "py_repr (JStr t) = [39] @ t @ [39]"
| "py_repr (JArr xs) = [91] @ join (lit '', '') (map py_repr xs) @ [93]"
| "py_repr (JObj kvs) = [123] @ join (lit '', '') (map item_repr kvs) @ [125]"
| "item_repr (k, v) = [39] @ k @ [39] @ lit '': '' @ py_repr v"

definition ref_str :: "json \<Rightarrow> pystr" where
  "ref_str j = (case j of JStr t \<Rightarrow> t | _ \<Rightarrow> py_repr j)"

definition ref_to_dict :: "identifier_data \<Rightarrow> json" where
  "ref_to_dict i =
     JArr (map JStr ([cog_name i, uuid i, category i] @ primary_key i @ identifiers i))"

definition ref_get_pkey_info :: "pystr \<Rightarrow> custom_group_data \<Rightarrow> error + nat \<times> bool" where
  "ref_get_pkey_info cat cgd =
     (if cat = lit ''GLOBAL'' then Inr (0, False)
      else if cat = lit ''GUILD'' \<or> cat = lit ''USER'' then Inr (1, False)
      else if cat = lit ''MEMBER'' then Inr (2, False)
      else (case map_of cgd cat of None \<Rightarrow> Inl KeyError | Some n \<Rightarrow> Inr (n, True)))"

fun collect :: "(error + 'a list) list \<Rightarrow> error + 'a list" where
  "collect [] = Inr []"
| "collect (Inl e # rs) = Inl e"
| "collect (Inr xs # rs) = (case collect rs of Inl e \<Rightarrow> Inl e | Inr ys \<Rightarrow> Inr (xs @ ys))"

fun flatten :: "nat \<Rightarrow> pystr list \<Rightarrow> json \<Rightarrow> error + (pystr list \<times> json) list" where
  "flatten 0 key v = Inr [(key, v)]"
| "flatten (Suc n) key (JObj kvs) = collect (map (\<lambda>kv. flatten n (key @ [fst kv]) (snd kv)) kvs)"
| "flatten (Suc n) key v = Inl AttributeError"

definition ref_split_primary_key :: "pystr \<Rightarrow> custom_group_data \<Rightarrow> json \<Rightarrow> error + (pystr list \<times> json) list" where
  "ref_split_primary_key cat cgd all_data =
     (case ref_get_pkey_info cat cgd of
        Inl e \<Rightarrow> Inl e
      | Inr info \<Rightarrow> flatten (fst info) [] all_data)"

definition ref_env :: "bool \<Rightarrow> env" where
  "ref_env orj =
     \<lparr>orjson = orj,
      orjson_dumps = (\<lambda>v. utf8_encode (json_text v)),
      ujson_dumps = (\<lambda>v. Inr (json_text v)),
      to_dict = ref_to_dict,
      py_str = ref_str,
      get_pkey_info = ref_get_pkey_info,
      split_primary_key = ref_split_primary_key\<rparr>"

definition ref_driver :: driver where
  "ref_driver =
     \<lparr>token = Some (lit ''secret''), base_url = lit ''http://localhost:8000'',
      self_cog_name = lit ''music'', unique_cog_identifier = lit ''1''\<rparr>"

definition new_world :: world where
  "new_world = \<lparr>sent = [], logged = []\<rparr>"

definition answer :: "nat \<Rightarrow> json \<Rightarrow> server" where
  "answer code j = (\<lambda>history rq. Inr \<lparr>status = code, json_body = Inr j\<rparr>)"



subsection \<open>The migration strategy as the specification words it\<close>

text \<open>
  "Attempt one bulk set per category first; on failure for a category, fall back to
  splitting that category's payload by its declared primary-key arity and retry per
  individual leaf set, logging (never raising) any leaf that still fails." Here the
  registry \<open>arity\<close> and the split \<open>leaves\<close> are total functions and there is no exception
  channel at all: the result is the world after the migration.
\<close>

fun retry_leaves_spec :: "driver \<Rightarrow> env \<Rightarrow> server \<Rightarrow> pystr \<Rightarrow> nat \<times> bool \<Rightarrow> (pystr list \<times> json) list \<Rightarrow> world \<Rightarrow> world" where
  "retry_leaves_spec d ev srv cat info [] w = w"
| "retry_leaves_spec d ev srv cat info ((pkey, data) # rest) w =
     (case set_value d ev srv (make_identifier d cat pkey info) data w of
        (Inr v, w') \<Rightarrow> retry_leaves_spec d ev srv cat info rest w'
      | (Inl err, w') \<Rightarrow>
          retry_leaves_spec d ev srv cat info rest
            (w'\<lparr>logged := logged w' @ [Critical (make_identifier d cat pkey info) data err]\<rparr>))"

fun import_data_spec :: "driver \<Rightarrow> env \<Rightarrow> server \<Rightarrow> (pystr \<Rightarrow> nat \<times> bool) \<Rightarrow> (pystr \<Rightarrow> json \<Rightarrow> (pystr list \<times> json) list) \<Rightarrow> (pystr \<times> json) list \<Rightarrow> world \<Rightarrow> world" where
  "import_data_spec d ev srv arity leaves [] w = w"
| "import_data_spec d ev srv arity leaves ((cat, payload) # rest) w =
     (case set_value d ev srv (make_identifier d cat [] (arity cat)) payload
             (w\<lparr>logged := logged w @ [Info (lit ''Converting cog category: '' @ cat)]\<rparr>) of
        (Inr v, w1) \<Rightarrow> import_data_spec d ev srv arity leaves rest w1
      | (Inl err, w1) \<Rightarrow>
          import_data_spec d ev srv arity leaves rest
            (retry_leaves_spec d ev srv cat (arity cat) (leaves cat payload) w1))"


text \<open>
  A server that refuses everything but the third request it receives, and the requests
  of the leaves of one category, in order, leaving out a leaf whose request cannot be
  built.
\<close>

definition flaky :: server where
  "flaky = (\<lambda>history rq.
     Inr \<lparr>status = (if length history = 2 then 200 else 500),
          json_body = Inr (JObj [(lit ''value'', JNull)])\<rparr>)"

definition leaf_requests :: "driver \<Rightarrow> env \<Rightarrow> pystr \<Rightarrow> nat \<times> bool \<Rightarrow> (pystr list \<times> json) list \<Rightarrow> request list" where
  "leaf_requests d ev cat info ls =
     concat (map (\<lambda>leaf.
        case set_request d ev (make_identifier d cat (fst leaf) info) (snd leaf) of
          Inl e \<Rightarrow> []
        | Inr rq \<Rightarrow> [rq]) ls)"

subsection \<open>The two JSON libraries at their defaults\<close>

text \<open>
  \<open>orjson\<close> and \<open>ujson\<close> are third-party libraries. At the defaults the driver uses, both
  write compact JSON and differ in how they escape a string: \<open>orjson.dumps\<close> emits UTF-8
  and escapes only the quote, the backslash and the control characters, while
  \<open>ujson.dumps\<close> (\<open>ensure_ascii\<close> and \<open>escape_forward_slashes\<close> on) also writes \<open>/\<close> as
  \<open>\/\<close> and every character beyond ASCII as \<open>\uXXXX\<close>, a surrogate pair beyond the basic
  plane. \<open>lib_env\<close> is \<open>ref_env\<close> with these two writers in place of the shared one.
\<close>

definition short_escape :: "nat \<Rightarrow> nat option" where
  "short_escape c =
     (if c = 8 then Some 98 else if c = 9 then Some 116 else if c = 10 then Some 110
      else if c = 12 then Some 102 else if c = 13 then Some 114 else None)"

definition u_escape :: "nat \<Rightarrow> pystr" where
  "u_escape c =
     [92, 117, hex_digit (c div 4096 mod 16), hex_digit (c div 256 mod 16),
      hex_digit (c div 16 mod 16), hex_digit (c mod 16)]"

definition control_escape :: "nat \<Rightarrow> pystr" where
  "control_escape c = (case short_escape c of Some e \<Rightarrow> [92, e] | None \<Rightarrow> u_escape c)"

definition orjson_escape_char :: "nat \<Rightarrow> pystr" where
  "orjson_escape_char c =
     (if c = 34 \<or> c = 92 then [92, c]
      else if c < 32 then control_escape c
      else [c])"

definition ujson_escape_char :: "nat \<Rightarrow> pystr" where
  "ujson_escape_char c =
     (if c = 34 \<or> c = 92 \<or> c = 47 then [92, c]
      else if c < 32 then control_escape c
      else if c < 128 then [c]
      else if c < 0x10000 then u_escape c
      else u_escape (0xD800 + (c - 0x10000) div 1024) @ u_escape (0xDC00 + (c - 0x10000) mod 1024))"

fun text_with :: "(nat \<Rightarrow> pystr) \<Rightarrow> json \<Rightarrow> pystr"
  and member_with :: "(nat \<Rightarrow> pystr) \<Rightarrow> pystr \<times> json \<Rightarrow> pystr" where
  "text_with esc JNull = lit ''null''"
| "text_with esc (JBool b) = (if b then lit ''true'' else lit ''false'')"
| "text_with esc (JInt i) = decimal i"
| "text_with esc (JStr t) = 34 # concat (map esc t) @ [34]"
| "text_with esc (JArr xs) = [91] @ join [44] (map (text_with esc) xs) @ [93]"
| "text_with esc (JObj kvs) = [123] @ join [44] (map (member_with esc) kvs) @ [125]"
| "member_with esc (k, v) = 34 # concat (map esc k) @ [34] @ [58] @ text_with esc v"

definition lib_env :: "bool \<Rightarrow> env" where
  "lib_env orj =
     \<lparr>orjson = orj,
      orjson_dumps = (\<lambda>v. utf8_encode (text_with orjson_escape_char v)),
      ujson_dumps = (\<lambda>v. Inr (text_with ujson_escape_char v)),
      to_dict = ref_to_dict,
      py_str = ref_str,
      get_pkey_info = ref_get_pkey_info,
      split_primary_key = ref_split_primary_key\<rparr>"

section \<open>Properties of the setting manager\<close>

lemma config_write_fields:
  "config_write cfg v m = (r, m') \<Longrightarrow>
     enable_cache m' = enable_cache m \<and> cached_global m' = cached_global m \<and>
     backend_reads m' = backend_reads m \<and> backend_clears m' = backend_clears m \<and>
     backend_writes m' = Suc (backend_writes m) \<and>
     (r, store m') = autoupdate_set cfg v (store m)"
  by (auto simp: config_write_def split: prod.splits)

lemma config_clear_fields:
  "config_clear cfg m = (r, m') \<Longrightarrow>
     enable_cache m' = enable_cache m \<and> cached_global m' = cached_global m \<and>
     backend_reads m' = backend_reads m \<and> backend_writes m' = backend_writes m \<and>
     backend_clears m' = Suc (backend_clears m) \<and>
     (r, store m') = autoupdate_clear cfg (store m)"
  by (auto simp: config_clear_def split: prod.splits)

lemma config_read_fields:
  "config_read cfg m = (r, m') \<Longrightarrow>
     enable_cache m' = enable_cache m \<and> cached_global m' = cached_global m \<and>
     backend_writes m' = backend_writes m \<and> backend_clears m' = backend_clears m \<and>
     backend_reads m' = Suc (backend_reads m) \<and>
     (r, store m') = autoupdate_call cfg (store m)"
  by (auto simp: config_read_def split: prod.splits)

lemma set_global_value_ok:
  assumes "set_global cfg (Some x) m = (Inr (), m1)"
  shows "enable_cache m1 = enable_cache m \<and> cached_global m1 () = Some x"
proof -
  obtain r m' where w: "config_write cfg x m = (r, m')"
    by (cases "config_write cfg x m")
  from assms w obtain u where r: "r = Inr u"
    by (cases r) (auto simp: set_global_def)
  from assms w r have "m1 = m'\<lparr>cached_global := (cached_global m')(() \<mapsto> x)\<rparr>"
    by (simp add: set_global_def)
  with config_write_fields [OF w] show ?thesis by simp
qed

text \<open>
  C7. With caching enabled, once \<open>set_global(x)\<close> has returned for a real boolean \<open>x\<close>, the
  next \<open>get_global()\<close> returns \<open>x\<close> and leaves the whole state as it was: the backend state
  and the three call counters included, so no backend read (nor any other backend call)
  happened.
\<close>

theorem set_then_get_served_from_cache:
  assumes "enable_cache m"
    and "set_global cfg (Some x) m = (Inr (), m1)"
  shows "get_global cfg m1 = (Inr x, m1) \<and>
         backend_reads (snd (get_global cfg m1)) = backend_reads m1 \<and>
         store (snd (get_global cfg m1)) = store m1"
proof -
  from set_global_value_ok [OF assms(2)] assms(1)
  have "enable_cache m1" and "cached_global m1 () = Some x" by simp_all
  then have "get_global cfg m1 = (Inr x, m1)"
    by (simp add: get_global_def)
  then show ?thesis by simp
qed

theorem set_then_get_served_from_cache_witness:
  "enable_cache (fresh_manager True (None :: bool option)) \<and>
   set_global (flag_config False) (Some True) (fresh_manager True None)
     = (Inr (), snd (set_global (flag_config False) (Some True) (fresh_manager True None))) \<and>
   get_global (flag_config False)
       (snd (set_global (flag_config False) (Some True) (fresh_manager True None)))
     = (Inr True, snd (set_global (flag_config False) (Some True) (fresh_manager True None))) \<and>
   backend_reads (snd (get_global (flag_config False)
       (snd (set_global (flag_config False) (Some True) (fresh_manager True None))))) = 0"
proof -
  let ?m = "fresh_manager True (None :: bool option)"
  let ?m1 = "snd (set_global (flag_config False) (Some True) ?m)"
  have e: "enable_cache ?m" by (simp add: fresh_manager_def)
  have st: "set_global (flag_config False) (Some True) ?m = (Inr (), ?m1)"
    by (simp add: set_global_def config_write_def flag_config_def fresh_manager_def)
  have r: "backend_reads ?m1 = 0"
    by (simp add: set_global_def config_write_def flag_config_def fresh_manager_def)
  from set_then_get_served_from_cache [OF e st] e st r show ?thesis by simp
qed








text \<open>
  C10. \<open>get_context_value\<close> ignores its guild argument: for any two guilds and the same
  state it yields the same result and the same successor state, namely those of
  \<open>get_global()\<close>.
\<close>

theorem context_value_ignores_guild:
  "get_context_value cfg g1 m = get_context_value cfg g2 m \<and>
   get_context_value cfg g1 m = get_global cfg m"
  by (simp add: get_context_value_def)

section \<open>Properties of the remote API driver\<close>

subsection \<open>UTF-8 round trip\<close>

lemma split64: "(q::nat) div 64 * (64 * k) + q mod 64 * k = q * k"
proof -
  have "q * k = (q div 64 * 64 + q mod 64) * k" by simp
  also have "\<dots> = q div 64 * (64 * k) + q mod 64 * k"
    by (simp only: add_mult_distrib mult.assoc)
  finally show ?thesis by simp
qed

lemma recombine3: "(c::nat) div 4096 * 4096 + c div 64 mod 64 * 64 + c mod 64 = c"
proof -
  have a: "c div 4096 = c div 64 div 64" by (simp add: div_mult2_eq)
  from split64 [of "c div 64" 64]
  have "c div 4096 * 4096 + c div 64 mod 64 * 64 = c div 64 * 64"
    unfolding a by simp
  then show ?thesis by simp
qed

lemma recombine4: "(c::nat) div 262144 * 262144 + c div 4096 mod 64 * 4096 + c div 64 mod 64 * 64 + c mod 64 = c"
proof -
  have a: "c div 262144 = c div 4096 div 64" by (simp add: div_mult2_eq)
  from split64 [of "c div 4096" 4096]
  have "c div 262144 * 262144 + c div 4096 mod 64 * 4096 = c div 4096 * 4096"
    unfolding a by simp
  with recombine3 [of c] show ?thesis by simp
qed

lemma utf8_char_decode:
  assumes "utf8_char c = Inr b"
  shows "utf8_decode (b @ bs) = push c (utf8_decode bs)"
proof -
  consider "c < 0x80" | "0x80 \<le> c" "c < 0x800" | "0x800 \<le> c" "c < 0x10000" "\<not> (0xD800 \<le> c \<and> c < 0xE000)"
    | "0x10000 \<le> c" "c < 0x110000"
    using assms by (auto simp: utf8_char_def split: if_splits)
  then show ?thesis
  proof cases
    case 1
    with assms show ?thesis by (auto simp: utf8_char_def)
  next
    case 2
    with assms have b: "b = [0xC0 + c div 64, 0x80 + c mod 64]"
      by (auto simp: utf8_char_def)
    from 2 have "2 \<le> c div 64" "c div 64 < 32" by auto
    with 2 show ?thesis unfolding b by (simp add: cont_def)
  next
    case 3
    with assms have b: "b = [0xE0 + c div 4096, 0x80 + c div 64 mod 64, 0x80 + c mod 64]"
      by (auto simp: utf8_char_def)
    from 3 have d: "c div 4096 < 16" by auto
    have r: "c div 4096 * 4096 + c div 64 mod 64 * 64 + c mod 64 = c"
      by (rule recombine3)
    from 3 d r show ?thesis unfolding b by (simp add: cont_def Let_def)
  next
    case 4
    with assms have b: "b = [0xF0 + c div 262144, 0x80 + c div 4096 mod 64, 0x80 + c div 64 mod 64,
             0x80 + c mod 64]"
      by (auto simp: utf8_char_def)
    from 4 have d: "c div 262144 < 5" by auto
    have r: "c div 262144 * 262144 + c div 4096 mod 64 * 4096 + c div 64 mod 64 * 64 + c mod 64 = c"
      by (rule recombine4)
    from 4 d r show ?thesis unfolding b by (simp add: cont_def Let_def)
  qed
qed

lemma utf8_roundtrip: "utf8_encode t = Inr b \<Longrightarrow> utf8_decode b = Inr t"
proof (induction t arbitrary: b)
  case Nil
  then show ?case by simp
next
  case (Cons c cs)
  then obtain b1 b2 where "utf8_char c = Inr b1" "utf8_encode cs = Inr b2" "b = b1 @ b2"
    by (auto split: sum.splits)
  with Cons.IH [of b2] utf8_char_decode [of c b1 b2] show ?case
    by (simp add: push_def)
qed




subsection \<open>Responses\<close>










subsection \<open>Bulk delete\<close>



subsection \<open>Request bodies\<close>




subsection \<open>Codec independence\<close>

text \<open>
  C6, as stated, fails: for the string \<open>a/b\<close> the orjson branch of \<open>_dump_to_string\<close> returns
  \<open>"a/b"\<close> and the ujson branch \<open>"a\/b"\<close>, and the two \<open>JsonPayload\<close> bodies differ in the
  same way.
\<close>

theorem codec_choice_visible_counterexample:
  "dump_to_string (lib_env True) (JStr (lit ''a/b'')) = Inr ([34] @ lit ''a/b'' @ [34]) \<and>
   dump_to_string (lib_env False) (JStr (lit ''a/b''))
     = Inr ([34] @ lit ''a'' @ [92, 47] @ lit ''b'' @ [34]) \<and>
   dump_to_string (lib_env True) (JStr (lit ''a/b''))
     \<noteq> dump_to_string (lib_env False) (JStr (lit ''a/b'')) \<and>
   JsonPayload (lib_env True) (JStr (lit ''a/b''))
     \<noteq> JsonPayload (lib_env False) (JStr (lit ''a/b''))"
  by code_simp

text \<open>
  C6, amended. The driver levels out the difference between bytes and text and nothing
  else. For a value that ujson dumps to the text \<open>t\<close> and orjson to the bytes \<open>b\<close>: the two
  \<open>JsonPayload\<close> bodies are the same exactly when \<open>b\<close> is the UTF-8 encoding of \<open>t\<close>, the two
  branches of \<open>_dump_to_string\<close> return the same exactly when \<open>b\<close> decodes to \<open>t\<close>, and when
  \<open>b\<close> is the UTF-8 encoding of \<open>t\<close> both hold: either branch returns the text \<open>t\<close> and
  carries the bytes \<open>b\<close>.
\<close>

theorem codec_choice_invisible:
  assumes "ujson_dumps ev v = Inr t"
    and "orjson_dumps ev v = Inr b"
  shows "(JsonPayload (ev\<lparr>orjson := True\<rparr>) v = JsonPayload (ev\<lparr>orjson := False\<rparr>) v)
           = (utf8_encode t = Inr b) \<and>
         (dump_to_string (ev\<lparr>orjson := True\<rparr>) v = dump_to_string (ev\<lparr>orjson := False\<rparr>) v)
           = (utf8_decode b = Inr t) \<and>
         (utf8_encode t = Inr b \<longrightarrow>
            dump_to_string (ev\<lparr>orjson := True\<rparr>) v = Inr t \<and>
            dump_to_string (ev\<lparr>orjson := False\<rparr>) v = Inr t \<and>
            JsonPayload (ev\<lparr>orjson := True\<rparr>) v = Inr b \<and>
            JsonPayload (ev\<lparr>orjson := False\<rparr>) v = Inr b)"
proof -
  have p: "(JsonPayload (ev\<lparr>orjson := True\<rparr>) v = JsonPayload (ev\<lparr>orjson := False\<rparr>) v)
           = (utf8_encode t = Inr b)"
    using assms by (auto simp: JsonPayload_def)
  have q: "(dump_to_string (ev\<lparr>orjson := True\<rparr>) v = dump_to_string (ev\<lparr>orjson := False\<rparr>) v)
           = (utf8_decode b = Inr t)"
    using assms by (simp add: dump_to_string_def)
  have r: "utf8_encode t = Inr b \<Longrightarrow>
            dump_to_string (ev\<lparr>orjson := True\<rparr>) v = Inr t \<and>
            dump_to_string (ev\<lparr>orjson := False\<rparr>) v = Inr t \<and>
            JsonPayload (ev\<lparr>orjson := True\<rparr>) v = Inr b \<and>
            JsonPayload (ev\<lparr>orjson := False\<rparr>) v = Inr b"
    using assms utf8_roundtrip [of t b] by (simp add: dump_to_string_def JsonPayload_def)
  from p q r show ?thesis by blast
qed

theorem codec_choice_invisible_witness:
  "ujson_dumps (lib_env True) (JObj [(lit ''volume'', JInt 50)])
     = Inr ([123, 34] @ lit ''volume'' @ [34] @ lit '':50}'') \<and>
   orjson_dumps (lib_env True) (JObj [(lit ''volume'', JInt 50)])
     = Inr ([123, 34] @ lit ''volume'' @ [34] @ lit '':50}'') \<and>
   utf8_encode ([123, 34] @ lit ''volume'' @ [34] @ lit '':50}'')
     = Inr ([123, 34] @ lit ''volume'' @ [34] @ lit '':50}'') \<and>
   dump_to_string (lib_env True) (JObj [(lit ''volume'', JInt 50)])
     = Inr ([123, 34] @ lit ''volume'' @ [34] @ lit '':50}'') \<and>
   dump_to_string (lib_env False) (JObj [(lit ''volume'', JInt 50)])
     = Inr ([123, 34] @ lit ''volume'' @ [34] @ lit '':50}'') \<and>
   JsonPayload (lib_env True) (JObj [(lit ''volume'', JInt 50)])
     = JsonPayload (lib_env False) (JObj [(lit ''volume'', JInt 50)])"
proof -
  let ?v = "JObj [(lit ''volume'', JInt 50)]"
  let ?t = "[123, 34] @ lit ''volume'' @ [34] @ lit '':50}''"
  have a: "ujson_dumps (lib_env True) ?v = Inr ?t" by code_simp
  have b: "orjson_dumps (lib_env True) ?v = Inr ?t" by code_simp
  have c: "utf8_encode ?t = Inr ?t" by code_simp
  have e: "(lib_env True)\<lparr>orjson := True\<rparr> = lib_env True"
    "(lib_env True)\<lparr>orjson := False\<rparr> = lib_env False"
    by (simp_all add: lib_env_def)
  note h = codec_choice_invisible [OF a b, unfolded e]
  from h c have p1: "dump_to_string (lib_env True) ?v = Inr ?t" by blast
  from h c have p2: "dump_to_string (lib_env False) ?v = Inr ?t" by blast
  from h c have p3: "JsonPayload (lib_env True) ?v = JsonPayload (lib_env False) ?v" by blast
  show ?thesis by (intro conjI) (rule a b c p1 p2 p3)+
qed

subsection \<open>Migration\<close>

lemma set_value_sent:
  "sent (snd (set_value d ev srv i v w)) =
     sent w @ (case set_request d ev i v of Inl e \<Rightarrow> [] | Inr rq \<Rightarrow> [rq])"
  by (simp add: set_value_def exchange_def http_def split: sum.splits)

lemma migrate_leaves_refines:
  assumes "get_pkey_info ev cat cgd = Inr info"
  shows "migrate_leaves d ev srv cat cgd ls w = (Inr (), retry_leaves_spec d ev srv cat info ls w)"
proof (induction ls arbitrary: w)
  case Nil
  show ?case by simp
next
  case (Cons leaf ls)
  obtain pkey data where l: "leaf = (pkey, data)" by (cases leaf)
  obtain r w' where s: "set_value d ev srv (make_identifier d cat pkey info) data w = (r, w')"
    by (cases "set_value d ev srv (make_identifier d cat pkey info) data w")
  show ?case
  proof (cases r)
    case (Inl err)
    with assms l s Cons.IH show ?thesis by simp
  next
    case (Inr v)
    with assms l s Cons.IH show ?thesis by simp
  qed
qed

lemma retry_leaves_spec_sent:
  "sent (retry_leaves_spec d ev srv cat info ls w) = sent w @ leaf_requests d ev cat info ls"
proof (induction ls arbitrary: w)
  case Nil
  show ?case by (simp add: leaf_requests_def)
next
  case (Cons leaf ls)
  obtain pkey data where l: "leaf = (pkey, data)" by (cases leaf)
  obtain r w' where s: "set_value d ev srv (make_identifier d cat pkey info) data w = (r, w')"
    by (cases "set_value d ev srv (make_identifier d cat pkey info) data w")
  from set_value_sent [of d ev srv "make_identifier d cat pkey info" data w] s
  have w': "sent w' = sent w @
      (case set_request d ev (make_identifier d cat pkey info) data of
         Inl e \<Rightarrow> [] | Inr rq \<Rightarrow> [rq])"
    by simp
  have c: "leaf_requests d ev cat info (leaf # ls) =
      (case set_request d ev (make_identifier d cat pkey info) data of
         Inl e \<Rightarrow> [] | Inr rq \<Rightarrow> [rq]) @ leaf_requests d ev cat info ls"
    by (simp add: leaf_requests_def l)
  show ?case
  proof (cases r)
    case (Inl err)
    with l s Cons.IH w' c show ?thesis by simp
  next
    case (Inr v)
    with l s Cons.IH w' c show ?thesis by simp
  qed
qed

lemma import_rows_refines:
  assumes "\<forall>(cat, payload) \<in> set rows.
             get_pkey_info ev cat cgd = Inr (arity cat) \<and>
             split_primary_key ev cat cgd payload = Inr (leaves cat payload)"
  shows "import_rows d ev srv cgd rows w = (Inr (), import_data_spec d ev srv arity leaves rows w)"
  using assms
proof (induction rows arbitrary: w)
  case Nil
  show ?case by simp
next
  case (Cons row rows)
  obtain cat payload where r: "row = (cat, payload)" by (cases row)
  from Cons.prems r have g: "get_pkey_info ev cat cgd = Inr (arity cat)"
    and sp: "split_primary_key ev cat cgd payload = Inr (leaves cat payload)"
    and rest: "\<forall>(cat, payload) \<in> set rows.
             get_pkey_info ev cat cgd = Inr (arity cat) \<and>
             split_primary_key ev cat cgd payload = Inr (leaves cat payload)"
    by simp_all
  let ?w0 = "w\<lparr>logged := logged w @ [Info (lit ''Converting cog category: '' @ cat)]\<rparr>"
  obtain res w1 where s: "set_value d ev srv (make_identifier d cat [] (arity cat)) payload ?w0
                            = (res, w1)"
    by (cases "set_value d ev srv (make_identifier d cat [] (arity cat)) payload ?w0")
  show ?case
  proof (cases res)
    case (Inr v)
    with r g s Cons.IH [OF rest] show ?thesis by (simp add: Let_def)
  next
    case (Inl err)
    have m: "individual_migrate d ev srv cat cgd payload w1
               = (Inr (), retry_leaves_spec d ev srv cat (arity cat) (leaves cat payload) w1)"
      using sp migrate_leaves_refines [OF g] by (simp add: individual_migrate_def)
    from Inl r g s m Cons.IH [OF rest] show ?thesis by (simp add: Let_def)
  qed
qed

lemma individual_migrate_refines:
  assumes "get_pkey_info ev cat cgd = Inr info"
    and "split_primary_key ev cat cgd payload = Inr ls"
  shows "individual_migrate d ev srv cat cgd payload w
           = (Inr (), retry_leaves_spec d ev srv cat info ls w)"
  using assms(2) migrate_leaves_refines [OF assms(1)] by (simp add: individual_migrate_def)

text \<open>
  C3, as stated, fails: not every iterable is migrated without an exception. The payload
  \<open>3\<close> of the category GUILD (arity 1) is refused by the server as a whole and cannot be
  split by primary key; the split is called outside the \<open>try\<close> blocks, \<open>import_data\<close>
  raises, and the USER row behind it is never attempted: one request went out.
\<close>

theorem import_data_raises_counterexample:
  "fst (import_data ref_driver (ref_env False) (answer 500 JNull)
          [(lit ''GUILD'', JInt 3), (lit ''USER'', JObj [(lit ''1'', JInt 1)])] [] new_world)
     = Inl AttributeError \<and>
   length (sent (snd (import_data ref_driver (ref_env False) (answer 500 JNull)
          [(lit ''GUILD'', JInt 3), (lit ''USER'', JObj [(lit ''1'', JInt 1)])] [] new_world)))
     = 1"
  by code_simp

text \<open>
  C3, amended. If the registry knows every category of \<open>cog_data\<close> and the split returns
  on every payload, then \<open>import_data\<close> never raises, whatever the server answers to any
  \<open>set\<close>, and leaves the world exactly as the two-phase strategy of the specification
  does: one bulk set per category with an empty primary key, and after a failed bulk set
  one set per leaf, a failing leaf being logged. For each row the per-leaf phase,
  \<open>_individual_migrate\<close>, returns normally from any state, and a request goes out for every
  leaf whose request can be built, whatever happened to the leaves before it.
\<close>

theorem import_data_two_phase:
  assumes "\<forall>(cat, payload) \<in> set cog_data.
             get_pkey_info ev cat cgd = Inr (arity cat) \<and>
             split_primary_key ev cat cgd payload = Inr (leaves cat payload)"
  shows "import_data d ev srv cog_data cgd w =
           (Inr (), import_data_spec d ev srv arity leaves cog_data
                      (w\<lparr>logged := logged w @ [Info (lit ''Converting Cog: '' @ self_cog_name d)]\<rparr>)) \<and>
         (\<forall>(cat, payload) \<in> set cog_data.
            fst (individual_migrate d ev srv cat cgd payload w') = Inr () \<and>
            sent (snd (individual_migrate d ev srv cat cgd payload w'))
              = sent w' @ leaf_requests d ev cat (arity cat) (leaves cat payload))"
proof -
  have a: "import_data d ev srv cog_data cgd w =
           (Inr (), import_data_spec d ev srv arity leaves cog_data
                      (w\<lparr>logged := logged w @ [Info (lit ''Converting Cog: '' @ self_cog_name d)]\<rparr>))"
    using import_rows_refines [OF assms] by (simp add: import_data_def)
  have b: "fst (individual_migrate d ev srv cat cgd payload w') = Inr () \<and>
           sent (snd (individual_migrate d ev srv cat cgd payload w'))
              = sent w' @ leaf_requests d ev cat (arity cat) (leaves cat payload)"
    if "(cat, payload) \<in> set cog_data" for cat payload
  proof -
    from assms that have g: "get_pkey_info ev cat cgd = Inr (arity cat)"
      and s: "split_primary_key ev cat cgd payload = Inr (leaves cat payload)"
      by auto
    from individual_migrate_refines [OF g s] retry_leaves_spec_sent
    show ?thesis by simp
  qed
  from a b show ?thesis by blast
qed

theorem import_data_two_phase_witness:
  "get_pkey_info (ref_env False) (lit ''GUILD'') [] = Inr (1, False) \<and>
   split_primary_key (ref_env False) (lit ''GUILD'') []
       (JObj [(lit ''7'', JInt 1), (lit ''8'', JInt 2)])
     = Inr [([lit ''7''], JInt 1), ([lit ''8''], JInt 2)] \<and>
   fst (import_data ref_driver (ref_env False) flaky
          [(lit ''GUILD'', JObj [(lit ''7'', JInt 1), (lit ''8'', JInt 2)])] [] new_world) = Inr () \<and>
   length (sent (snd (import_data ref_driver (ref_env False) flaky
          [(lit ''GUILD'', JObj [(lit ''7'', JInt 1), (lit ''8'', JInt 2)])] [] new_world))) = 3 \<and>
   length (logged (snd (import_data ref_driver (ref_env False) flaky
          [(lit ''GUILD'', JObj [(lit ''7'', JInt 1), (lit ''8'', JInt 2)])] [] new_world))) = 3 \<and>
   length (sent (snd (individual_migrate ref_driver (ref_env False) flaky (lit ''GUILD'') []
          (JObj [(lit ''7'', JInt 1), (lit ''8'', JInt 2)]) new_world))) = 2"
proof -
  let ?rows = "[(lit ''GUILD'', JObj [(lit ''7'', JInt 1), (lit ''8'', JInt 2)])]"
  have h: "\<forall>(cat, payload) \<in> set ?rows.
      get_pkey_info (ref_env False) cat [] = Inr ((\<lambda>c. (1, False)) cat) \<and>
      split_primary_key (ref_env False) cat [] payload
        = Inr ((\<lambda>c p. [([lit ''7''], JInt 1), ([lit ''8''], JInt 2)]) cat payload)"
    by code_simp
  have s: "length (sent (import_data_spec ref_driver (ref_env False) flaky (\<lambda>c. (1, False))
             (\<lambda>c p. [([lit ''7''], JInt 1), ([lit ''8''], JInt 2)]) ?rows
             (new_world\<lparr>logged := logged new_world @
                [Info (lit ''Converting Cog: '' @ self_cog_name ref_driver)]\<rparr>))) = 3"
    by code_simp
  have l: "length (logged (import_data_spec ref_driver (ref_env False) flaky (\<lambda>c. (1, False))
             (\<lambda>c p. [([lit ''7''], JInt 1), ([lit ''8''], JInt 2)]) ?rows
             (new_world\<lparr>logged := logged new_world @
                [Info (lit ''Converting Cog: '' @ self_cog_name ref_driver)]\<rparr>))) = 3"
    by code_simp
  have n: "length (sent new_world @ leaf_requests ref_driver (ref_env False) (lit ''GUILD'')
             (1, False) [([lit ''7''], JInt 1), ([lit ''8''], JInt 2)]) = 2"
    by code_simp
  from h have g: "get_pkey_info (ref_env False) (lit ''GUILD'') [] = Inr (1, False)"
    and p: "split_primary_key (ref_env False) (lit ''GUILD'') []
       (JObj [(lit ''7'', JInt 1), (lit ''8'', JInt 2)])
     = Inr [([lit ''7''], JInt 1), ([lit ''8''], JInt 2)]"
    by simp_all
  from import_data_two_phase [OF h, of ref_driver flaky new_world new_world] g p s l n
  show ?thesis by simp
qed

end
